theory Spec2Isabelle
  imports Main "HOL-Library.AList"
begin

section \<open>Python strings and dictionaries\<close>

text \<open>
  A Python \<open>str\<close> is a \<open>string\<close> (a list of characters); the characters of the model are
  the code points below 256. A \<open>dict\<close> with string keys and values is an association list
  in insertion order: \<open>d[k] = v\<close> is \<open>AList.update k v d\<close> (an existing key keeps its
  place, a new key goes to the end), \<open>k in d\<close> is \<open>map_of d k \<noteq> None\<close>, and \<open>d[k]\<close>
  raises \<open>KeyError\<close> where \<open>map_of d k = None\<close>.
\<close>

type_synonym dict = "(string \<times> string) list"

abbreviation nl :: char where
  "nl \<equiv> CHR 0x0A"

abbreviation cr :: char where
  "cr \<equiv> CHR 0x0D"

abbreviation apostrophe :: char where
  "apostrophe \<equiv> CHR 0x27"

text \<open>\<open>str.isspace\<close> of one character, for the code points below 256.\<close>

definition is_space :: "char \<Rightarrow> bool" where
  "is_space c = (c \<in> set [CHR 0x09, CHR 0x0A, CHR 0x0B, CHR 0x0C, CHR 0x0D,
                           CHR 0x1C, CHR 0x1D, CHR 0x1E, CHR 0x1F, CHR 0x20,
                           CHR 0x85, CHR 0xA0])"

text \<open>The line boundaries of \<open>str.splitlines\<close> below 256 (\<open>\r\n\<close> is handled apart).\<close>

definition is_linebreak :: "char \<Rightarrow> bool" where
  "is_linebreak c = (c \<in> set [CHR 0x0A, CHR 0x0B, CHR 0x0C, CHR 0x0D,
                               CHR 0x1C, CHR 0x1D, CHR 0x1E, CHR 0x85])"

text \<open>
  \<open>s.splitlines(True)\<close>: the lines of \<open>s\<close>, each with its line break kept. The first
  argument is the line read so far.
\<close>

fun splitlines_from :: "string \<Rightarrow> string \<Rightarrow> string list" where
  "splitlines_from cur [] = (if cur = [] then [] else [cur])"
| "splitlines_from cur [c] = [cur @ [c]]"
| "splitlines_from cur (c # d # cs) =
     (if c = cr \<and> d = nl then (cur @ [c, d]) # splitlines_from [] cs
      else if is_linebreak c then (cur @ [c]) # splitlines_from [] (d # cs)
      else splitlines_from (cur @ [c]) (d # cs))"

definition splitlines :: "string \<Rightarrow> string list" where
  "splitlines s = splitlines_from [] s"

text \<open>\<open>s.split(c)\<close> for a one-character separator: never an empty list.\<close>

fun split_on :: "char \<Rightarrow> string \<Rightarrow> string list" where
  "split_on c [] = [[]]"
| "split_on c (x # xs) =
     (if x = c then [] # split_on c xs
      else (case split_on c xs of
              [] \<Rightarrow> [[x]]
            | w # ws \<Rightarrow> (x # w) # ws))"

text \<open>
  \<open>s.split()\<close>: the maximal runs of characters that are not whitespace. The first
  argument is the token read so far.
\<close>

fun tokens_from :: "string \<Rightarrow> string \<Rightarrow> string list" where
  "tokens_from cur [] = (if cur = [] then [] else [cur])"
| "tokens_from cur (c # cs) =
     (if is_space c then (if cur = [] then tokens_from [] cs else cur # tokens_from [] cs)
      else tokens_from (cur @ [c]) cs)"

definition split_ws :: "string \<Rightarrow> string list" where
  "split_ws s = tokens_from [] s"

text \<open>\<open>s.strip()\<close>.\<close>

definition strip :: "string \<Rightarrow> string" where
  "strip s = rev (dropWhile is_space (rev (dropWhile is_space s)))"

text \<open>
  \<open>s.lower()\<close>, character by character, for the code points below 256: the capitals are
  \<open>A\<close> to \<open>Z\<close> (65 to 90) and the Latin-1 capitals U+00C0 to U+00DE without the
  multiplication sign U+00D7 (192 to 222 without 215); the small letter of each stands 32
  code points above it. Every other character is kept.
\<close>

definition lower_char :: "char \<Rightarrow> char" where
  "lower_char c =
     (let n = (of_char c :: nat)
      in if (65 \<le> n \<and> n \<le> 90) \<or> (192 \<le> n \<and> n \<le> 222 \<and> n \<noteq> 215)
         then char_of (n + 32) else c)"

definition lower :: "string \<Rightarrow> string" where
  "lower s = map lower_char s"

text \<open>
  \<open>repr\<close> of a string without quotes, backslashes or control characters, and of a list
  of such strings, as \<open>"%s" % (xs)\<close> prints it.
\<close>

definition repr_str :: "string \<Rightarrow> string" where
  "repr_str s = [apostrophe] @ s @ [apostrophe]"

fun join :: "string \<Rightarrow> string list \<Rightarrow> string" where
  "join sep [] = []"
| "join sep [x] = x"
| "join sep (x # y # ys) = x @ sep @ join sep (y # ys)"

definition repr_list :: "string list \<Rightarrow> string" where
  "repr_list xs = ''['' @ join '', '' (map repr_str xs) @ '']''"

section \<open>Exceptions and collaborators\<close>

text \<open>
  The exceptions the modelled functions raise. \<open>UnboundLocalError\<close> is what Python
  raises when a local variable is read before any assignment to it.
\<close>

datatype exn =
    ParseChangesError string
  | InvalidDscError nat
  | NoFilesFieldError
  | UnknownFormatError string
  | UnboundLocalError string
  | KeyError string
  | TypeError

text \<open>
  The compiled patterns of \<open>daklib/regexes.py\<close>, a module that is not part of the
  sources at hand: each pattern is a parameter, given by what the code reads of a match.
  \<^item> \<open>re_single_line_field.match(line)\<close>: groups 1 and 2 (key and value);
  \<^item> \<open>re_multi_line_field.match(line)\<close>: group 1 (the content of a continuation line);
  \<^item> \<open>re_srchasver.search(s)\<close>: groups 1 and 2 (name and version);
  \<^item> \<open>re_issource.match(f)\<close>: group 3 (the extension of a source file name);
  \<^item> \<open>re_build_dep_arch.sub("", s)\<close>: the text without its architecture qualifiers.
\<close>

record regexes =
  re_single_line_field :: "string \<Rightarrow> (string \<times> string) option"
  re_multi_line_field :: "string \<Rightarrow> string option"
  re_srchasver :: "string \<Rightarrow> (string \<times> string) option"
  re_issource :: "string \<Rightarrow> string option"
  re_build_dep_arch :: "string \<Rightarrow> string"

section \<open>parse_deb822\<close>

text \<open>
  The variables of the scanning loop of \<open>parse_deb822\<close>. \<open>field\<close> has no value until the
  first single-line field is read.
\<close>

record scan_state =
  changes :: dict
  field :: "string option"
  first :: int
  error :: string

definition scan_init :: scan_state where
  "scan_init = \<lparr>changes = [], field = None, first = -1, error = []\<rparr>"

text \<open>
  How one pass through the body of a loop ends: the loop goes on with a new state
  (\<open>continue\<close>, or the end of the body), it is left by \<open>break\<close>, or an exception is
  raised.
\<close>

datatype 'a outcome = Next 'a | Break | Raise exn

text \<open>
  The body of the loop \<open>while index < num_of_lines\<close>, for the line \<open>indexed_lines[index]\<close>;
  \<open>index\<close> is the value after \<open>index += 1\<close>.
\<close>

definition scan_line :: "regexes \<Rightarrow> int \<Rightarrow> nat \<Rightarrow> nat \<Rightarrow> string \<Rightarrow> scan_state \<Rightarrow> scan_state outcome" where
  "scan_line rx signing_rules num_of_lines index line st =
     (if line = [] \<and> signing_rules = 1 then
        (if index \<noteq> num_of_lines then Raise (InvalidDscError index) else Break)
      else
        (case re_single_line_field rx line of
           Some (k, v) \<Rightarrow>
             Next (st\<lparr>changes := AList.update (lower k) v (changes st),
                       field := Some (lower k), first := 1\<rparr>)
         | None \<Rightarrow>
             if line = '' .'' then
               (case field st of
                  None \<Rightarrow> Raise (UnboundLocalError ''field'')
                | Some f \<Rightarrow>
                    (case map_of (changes st) f of
                       None \<Rightarrow> Raise (KeyError f)
                     | Some v \<Rightarrow>
                         Next (st\<lparr>changes := AList.update f (v @ [nl]) (changes st)\<rparr>)))
             else
               (case re_multi_line_field rx line of
                  Some g \<Rightarrow>
                    if first st = -1 then
                      Raise (ParseChangesError
                               ([apostrophe] @ line @ [apostrophe, nl] @
                                '' [Multi-line field continuing on from nothing?]''))
                    else
                      (case field st of
                         None \<Rightarrow> Raise (UnboundLocalError ''field'')
                       | Some f \<Rightarrow>
                           (case map_of (changes st) f of
                              None \<Rightarrow> Raise (KeyError f)
                            | Some v \<Rightarrow>
                                Next (st\<lparr>changes :=
                                            AList.update f
                                              ((if first st = 1 \<and> v \<noteq> [] then v @ [nl] else v)
                                                 @ g @ [nl])
                                              (changes st),
                                          first := 0\<rparr>)))
                | None \<Rightarrow> Next (st\<lparr>error := error st @ line\<rparr>))))"

text \<open>
  The loop itself. \<open>index\<close> is the number of lines read so far and the list holds the
  lines from \<open>index + 1\<close> on, so the list is empty exactly when \<open>index = num_of_lines\<close>.
  The result is the state when the loop is left, or the exception raised.
\<close>

fun scan :: "regexes \<Rightarrow> int \<Rightarrow> nat \<Rightarrow> nat \<Rightarrow> string list \<Rightarrow> scan_state \<Rightarrow> exn + scan_state" where
  "scan rx signing_rules num_of_lines index [] st = Inr st"
| "scan rx signing_rules num_of_lines index (line # rest) st =
     (case scan_line rx signing_rules num_of_lines (Suc index) line st of
        Raise e \<Rightarrow> Inl e
      | Break \<Rightarrow> Inr st
      | Next st' \<Rightarrow> scan rx signing_rules num_of_lines (Suc index) rest st')"

text \<open>
  The lines as the loop reads them: \<open>indexed_lines[i] = line[:-1]\<close>, every line of
  \<open>splitlines(True)\<close> without its last character.
\<close>

definition indexed_lines :: "string \<Rightarrow> string list" where
  "indexed_lines contents = map butlast (splitlines contents)"

text \<open>The rewriting of \<open>source\<close> into \<open>source\<close> and \<open>source-version\<close>.\<close>

definition split_source :: "regexes \<Rightarrow> dict \<Rightarrow> dict" where
  "split_source rx chg =
     (case map_of chg ''source'' of
        None \<Rightarrow> chg
      | Some s \<Rightarrow>
          (case re_srchasver rx s of
             None \<Rightarrow> chg
           | Some (name, version) \<Rightarrow>
               AList.update ''source-version'' version (AList.update ''source'' name chg)))"

text \<open>
  \<open>parse_deb822(armored_contents, signing_rules, keyrings)\<close>. The signature check
  (\<open>SignedFile\<close>, of \<open>daklib/gpg.py\<close>) and the decoding are outside the sources at hand:
  \<open>contents\<close> is the decoded payload it yields, \<open>armored_contents\<close> the decoded input.
\<close>

definition parse_deb822 :: "regexes \<Rightarrow> string \<Rightarrow> string \<Rightarrow> int \<Rightarrow> exn + dict" where
  "parse_deb822 rx armored_contents contents signing_rules =
     (let lines = splitlines contents in
      if length lines = 0 then Inl (ParseChangesError ''[Empty changes file]'')
      else
        (case scan rx signing_rules (length lines) 0 (map butlast lines) scan_init of
           Inl e \<Rightarrow> Inl e
         | Inr st \<Rightarrow>
             (let changes' =
                    split_source rx (AList.update ''filecontents'' armored_contents (changes st))
              in if error st \<noteq> [] then Inl (ParseChangesError (error st))
                 else Inr changes')))"

subsection \<open>The kinds of line\<close>

text \<open>
  A bad line matches none of the three shapes of the scan and is not empty: it is what the
  loop appends to \<open>error\<close>. A continuation line is one the loop reads with
  \<open>re_multi_line_field\<close>.
\<close>

definition bad_line :: "regexes \<Rightarrow> string \<Rightarrow> bool" where
  "bad_line rx l =
     (l \<noteq> [] \<and> re_single_line_field rx l = None \<and> l \<noteq> '' .'' \<and>
      re_multi_line_field rx l = None)"


section \<open>parse_changes\<close>

definition must_keywords :: "string list" where
  "must_keywords = [''Format'', ''Date'', ''Source'', ''Architecture'', ''Version'',
                    ''Distribution'', ''Maintainer'', ''Changes'', ''Files'']"

text \<open>
  The loop over \<open>must_keywords\<close>; \<open>chg\<close> is the dictionary \<open>changes\<close>. The test
  \<open>if len(missingfields)\<close> stands inside the branch that has just appended a keyword, so
  it is read after every append.
\<close>

fun check_keywords :: "dict \<Rightarrow> string list \<Rightarrow> string list \<Rightarrow> exn + string list" where
  "check_keywords chg missingfields [] = Inr missingfields"
| "check_keywords chg missingfields (keyword # rest) =
     (if map_of chg (lower keyword) = None then
        (let missingfields' = missingfields @ [keyword]
         in if length missingfields' \<noteq> 0 then
              Inl (ParseChangesError
                     (''Missing mandatory field(s) in changes file (policy 5.5): ''
                        @ repr_list missingfields'))
            else check_keywords chg missingfields' rest)
      else check_keywords chg missingfields rest)"

text \<open>
  \<open>parse_changes(filename, signing_rules, dsc_file, keyrings)\<close>, from the content read
  from the file on.
\<close>

definition parse_changes :: "regexes \<Rightarrow> string \<Rightarrow> string \<Rightarrow> int \<Rightarrow> bool \<Rightarrow> exn + dict" where
  "parse_changes rx armored_contents contents signing_rules dsc_file =
     (case parse_deb822 rx armored_contents contents signing_rules of
        Inl e \<Rightarrow> Inl e
      | Inr chg \<Rightarrow>
          if \<not> dsc_file then
            (case check_keywords chg [] must_keywords of
               Inl e \<Rightarrow> Inl e
             | Inr _ \<Rightarrow> Inr chg)
          else Inr chg)"

section \<open>build_file_list\<close>

text \<open>
  \<open>extract_component_from_section\<close>: the section is kept as it is; the component is what
  stands before the first \<open>/\<close>, and \<open>main\<close> when there is none.
\<close>

definition extract_component_from_section :: "string \<Rightarrow> string \<times> string" where
  "extract_component_from_section section =
     (if CHR ''/'' \<in> set section
      then (section, takeWhile (\<lambda>c. c \<noteq> CHR ''/'') section)
      else (section, ''main''))"

text \<open>
  The entry stored for a file: \<open>dict(size=, section=, priority=, component=)\<close>, then
  \<open>files[name][hashname] = md5\<close>.
\<close>

definition file_entry :: "string \<Rightarrow> string \<Rightarrow> string \<Rightarrow> string \<Rightarrow> string \<Rightarrow> string \<Rightarrow> dict" where
  "file_entry hashname md5 sz section priority component =
     AList.update hashname md5
       [(''size'', sz), (''section'', section), (''priority'', priority),
        (''component'', component)]"

text \<open>
  The body of the loop over the lines of the field. Unpacking \<open>s\<close> into five (or three)
  names raises \<open>ValueError\<close> unless \<open>s\<close> has exactly that many tokens, and the handler
  raises \<open>ParseChangesError(i)\<close>.
\<close>

definition file_line :: "bool \<Rightarrow> string \<Rightarrow> string \<Rightarrow> (string \<times> dict) list \<Rightarrow> (string \<times> dict) list outcome" where
  "file_line includes_section hashname i files =
     (if i = [] then Break
      else
        (let s = split_ws i in
         if length s \<noteq> (if includes_section then 5 else 3) then Raise (ParseChangesError i)
         else
           (let md5 = s ! 0;
                sz = s ! 1;
                section0 = (if includes_section then s ! 2 else []);
                priority0 = (if includes_section then s ! 3 else []);
                name = (if includes_section then s ! 4 else s ! 2);
                section1 = (if section0 = [] then ''-'' else section0);
                priority = (if priority0 = [] then ''-'' else priority0);
                (section, component) = extract_component_from_section section1
            in Next (AList.update name
                       (file_entry hashname md5 sz section priority component) files))))"

fun file_lines :: "bool \<Rightarrow> string \<Rightarrow> string list \<Rightarrow> (string \<times> dict) list \<Rightarrow> exn + (string \<times> dict) list" where
  "file_lines includes_section hashname [] files = Inr files"
| "file_lines includes_section hashname (i # rest) files =
     (case file_line includes_section hashname i files of
        Raise e \<Rightarrow> Inl e
      | Break \<Rightarrow> Inr files
      | Next files' \<Rightarrow> file_lines includes_section hashname rest files')"

text \<open>
  \<open>build_file_list(changes, is_a_dsc, field, hashname)\<close>. The format check
  \<open>validate_changes_format(parse_format(changes['format']), field)\<close> belongs to
  \<open>daklib/formats.py\<close>, which is not among the sources: it is the parameter
  \<open>validate_format\<close>, which gives the exception raised for a format and a field, if any.
\<close>

definition build_file_list :: "(string \<Rightarrow> string \<Rightarrow> exn option) \<Rightarrow> dict \<Rightarrow> bool \<Rightarrow> string \<Rightarrow> string \<Rightarrow> exn + (string \<times> dict) list" where
  "build_file_list validate_format chg is_a_dsc fld hashname =
     (case map_of chg fld of
        None \<Rightarrow> Inl NoFilesFieldError
      | Some v \<Rightarrow>
          (case (if \<not> is_a_dsc then
                   (case map_of chg ''format'' of
                      None \<Rightarrow> Some (KeyError ''format'')
                    | Some fmt \<Rightarrow> validate_format fmt fld)
                 else None) of
             Some e \<Rightarrow> Inl e
           | None \<Rightarrow>
               file_lines ((\<not> is_a_dsc) \<and> fld = ''files'') hashname (split_on nl v) []))"

text \<open>A format check that accepts every format, for the examples.\<close>

definition any_format :: "string \<Rightarrow> string \<Rightarrow> exn option" where
  "any_format fmt fld = None"

section \<open>check_dsc_files\<close>

text \<open>
  \<open>re.match(regex, s)\<close> for the patterns of \<open>ftype_lookup\<close>: a match at the start of
  \<open>s\<close>. \<open>starts_with_any ps s\<close> reads a pattern that is a choice of literal texts;
  \<open>orig_component ps s\<close> reads \<open>orig-.+\<close> followed by one of the texts \<open>ps\<close>, where \<open>.+\<close>
  is one or more characters other than a newline.
\<close>

definition starts_with :: "string \<Rightarrow> string \<Rightarrow> bool" where
  "starts_with p s = (take (length p) s = p)"

definition starts_with_any :: "string list \<Rightarrow> string \<Rightarrow> bool" where
  "starts_with_any ps s = list_ex (\<lambda>p. starts_with p s) ps"

definition orig_component :: "string list \<Rightarrow> string \<Rightarrow> bool" where
  "orig_component ps s =
     (starts_with ''orig-'' s \<and>
      list_ex (\<lambda>i. nl \<notin> set (take i (drop 5 s)) \<and> starts_with_any ps (drop i (drop 5 s)))
              [1 ..< Suc (length (drop 5 s))])"

definition ftype_lookup :: "((string \<Rightarrow> bool) \<times> string list) list" where
  "ftype_lookup =
     [(starts_with_any [''orig.tar.gz.asc'', ''orig.tar.bz2.asc'', ''orig.tar.xz.asc''],
         [''orig_tar_sig'']),
      (starts_with_any [''orig.tar.gz''], [''orig_tar_gz'', ''orig_tar'']),
      (starts_with_any [''diff.gz''], [''debian_diff'']),
      (starts_with_any [''tar.gz''], [''native_tar_gz'', ''native_tar'']),
      (starts_with_any [''debian.tar.gz'', ''debian.tar.bz2'', ''debian.tar.xz''],
         [''debian_tar'']),
      (starts_with_any [''orig.tar.gz'', ''orig.tar.bz2'', ''orig.tar.xz''], [''orig_tar'']),
      (starts_with_any [''tar.gz'', ''tar.bz2'', ''tar.xz''], [''native_tar'']),
      (orig_component [''.tar.gz.asc'', ''.tar.bz2.asc'', ''.tar.xz.asc''],
         [''more_orig_tar_sig'']),
      (orig_component [''.tar.gz'', ''.tar.bz2'', ''.tar.xz''], [''more_orig_tar''])]"

text \<open>
  The counters \<open>has\<close>, a \<open>defaultdict\<close> with default 0, are an association list from
  type to count. Reading \<open>has[key]\<close> stores the default for a key that is missing
  (\<open>touch\<close>) and gives its count. \<open>count_keys\<close> is the loop
  \<open>for key in keys: has[key] += 1\<close>.
\<close>

type_synonym counters = "(string \<times> nat) list"

definition touch :: "string \<Rightarrow> counters \<Rightarrow> counters" where
  "touch key has = (if map_of has key = None then AList.update key 0 has else has)"

definition count :: "counters \<Rightarrow> string \<Rightarrow> nat" where
  "count has key = (case map_of has key of None \<Rightarrow> 0 | Some n \<Rightarrow> n)"

fun count_keys :: "string list \<Rightarrow> counters \<Rightarrow> counters" where
  "count_keys [] has = has"
| "count_keys (key # keys) has = count_keys keys (AList.update key (count has key + 1) has)"

definition not_recognised :: "string \<Rightarrow> string \<Rightarrow> string" where
  "not_recognised dsc_filename f =
     dsc_filename @ '': '' @ f @ '' in Files field not recognised as source.''"

definition unexpected_file :: "string \<Rightarrow> string \<Rightarrow> string" where
  "unexpected_file dsc_filename f =
     dsc_filename @ '': unexpected source file '' @ [apostrophe] @ f @ [apostrophe]"

text \<open>
  The body of the loop \<open>for f in dsc_files\<close>, on the pair of \<open>rejmsg\<close> and \<open>has\<close>. The
  inner loop over \<open>ftype_lookup\<close> stops at the first rule that matches, which
  \<open>List.find\<close> returns. The second component of the result tells whether the loop goes
  on (\<open>True\<close>: \<open>continue\<close>, or the end of the body) or is left by \<open>break\<close> (\<open>False\<close>).
\<close>

definition classify_file :: "regexes \<Rightarrow> string \<Rightarrow> string \<Rightarrow> string list \<times> counters \<Rightarrow> (string list \<times> counters) \<times> bool" where
  "classify_file rx dsc_filename f st =
     (case re_issource rx f of
        None \<Rightarrow> ((fst st @ [not_recognised dsc_filename f], snd st), True)
      | Some ext \<Rightarrow>
          (case List.find (\<lambda>rule. fst rule ext) ftype_lookup of
             Some rule \<Rightarrow> ((fst st, count_keys (snd rule) (snd st)), True)
           | None \<Rightarrow> ((fst st @ [unexpected_file dsc_filename f], snd st), False)))"

fun classify_files :: "regexes \<Rightarrow> string \<Rightarrow> string list \<Rightarrow> string list \<times> counters \<Rightarrow> string list \<times> counters" where
  "classify_files rx dsc_filename [] st = st"
| "classify_files rx dsc_filename (f # rest) st =
     (case classify_file rx dsc_filename f st of
        (st', True) \<Rightarrow> classify_files rx dsc_filename rest st'
      | (st', False) \<Rightarrow> st')"

text \<open>The loop \<open>for file_type in (...)\<close> that rejects a type listed more than once.\<close>

definition multiple_types :: "string list" where
  "multiple_types = [''orig_tar'', ''orig_tar_sig'', ''native_tar'', ''debian_tar'', ''debian_diff'']"

fun multiple_files :: "string \<Rightarrow> string list \<Rightarrow> string list \<times> counters \<Rightarrow> string list \<times> counters" where
  "multiple_files dsc_filename [] st = st"
| "multiple_files dsc_filename (file_type # rest) st =
     multiple_files dsc_filename rest
       (if count (snd st) file_type > 1
        then (fst st @ [dsc_filename @ '': lists multiple '' @ file_type], touch file_type (snd st))
        else (fst st, touch file_type (snd st)))"

text \<open>
  \<open>check_dsc_files(dsc_filename, dsc, dsc_files)\<close>; \<open>dsc_files\<close> is the list of the keys
  of the mapping, in its order. \<open>get_format_from_string\<close> belongs to
  \<open>daklib/srcformats.py\<close>, which is not among the sources: it is a parameter, which gives
  \<open>reject_msgs\<close> of the format, or \<open>None\<close> where it raises \<open>UnknownFormatError\<close>.
\<close>

definition check_dsc_files :: "regexes \<Rightarrow> (string \<Rightarrow> (counters \<Rightarrow> string list) option) \<Rightarrow> string \<Rightarrow> dict \<Rightarrow> string list \<Rightarrow> exn + string list" where
  "check_dsc_files rx get_format_from_string dsc_filename dsc dsc_files =
     (let st = multiple_files dsc_filename multiple_types
                 (classify_files rx dsc_filename dsc_files ([], []))
      in case map_of dsc ''format'' of
           None \<Rightarrow> Inl (KeyError ''format'')
         | Some fmt \<Rightarrow>
             (case get_format_from_string fmt of
                None \<Rightarrow> Inr (fst st)
              | Some reject_msgs \<Rightarrow>
                  Inr (fst st @ map (\<lambda>x. dsc_filename @ '': '' @ x) (reject_msgs (snd st)))))"

text \<open>A registry that knows no format, for the examples: every format is unknown.\<close>

definition no_format :: "string \<Rightarrow> (counters \<Rightarrow> string list) option" where
  "no_format fmt = None"

section \<open>check_reverse_depends\<close>

text \<open>
  An alternative of a dependency clause as \<open>apt_pkg.parse_depends\<close> returns it, a triple
  of which the code reads the first component, the package name. A clause is a list of
  alternatives. The parsers belong to python-apt; they are parameters, with \<open>None\<close>
  where they raise \<open>ValueError\<close>.
\<close>

type_synonym alternative = "string \<times> string \<times> string"

record apt_pkg =
  parse_depends :: "string \<Rightarrow> alternative list list option"
  parse_src_depends :: "string \<Rightarrow> alternative list list option"

text \<open>
  The metadata store, by the queries the function issues for the suite:
  \<^item> \<open>suite_architectures\<close>: \<open>get_suite_architectures(suite)\<close>, by name;
  \<^item> \<open>binaries arch\<close>: the rows (package, source, component, depends, provides) of the
    binaries of the architecture, or \<open>None\<close> where \<open>get_architecture\<close> finds no such
    architecture (the \<open>AttributeError\<close> that makes the loop \<open>continue\<close>);
  \<^item> \<open>source_build_deps include_arch_all\<close>: the rows (source, build_dep) of the newest
    sources, with Build-Depends-Indep when \<open>include_arch_all\<close>;
  \<^item> \<open>dsc_component package\<close>: the first row of the query for the component of the
    \<open>dsc\<close> override of the package in the override suite, if any.
\<close>

type_synonym binary_row = "string \<times> string \<times> string \<times> string option \<times> string option"

record store =
  suite_architectures :: "string list"
  binaries :: "string \<Rightarrow> binary_row list option"
  source_build_deps :: "bool \<Rightarrow> (string \<times> string option) list"
  dsc_component :: "string \<Rightarrow> string option"

text \<open>
  The variables of \<open>check_reverse_depends\<close>. \<open>all_broken\<close>, a dictionary from source to a
  dictionary from binary to a set of architectures, is the list of the triples (source,
  binary, architecture) it holds; the second \<open>all_broken\<close>, from source to a set of
  printed clauses, is \<open>all_broken_bd\<close>, the list of its pairs. A set is a list without
  repetitions. \<open>sources\<close>, \<open>deps\<close> and \<open>virtual_packages\<close> are set anew for every
  architecture.
\<close>

record analysis =
  dep_problem :: bool
  p2c :: dict
  removal_set :: "string list"
  all_broken :: "(string \<times> string \<times> string) list"
  all_broken_bd :: "(string \<times> string) list"
  sources :: dict
  deps :: dict
  virtual_packages :: "(string \<times> nat) list"

text \<open>The loop \<open>for virtual_pkg in provides.split(",")\<close> of one row.\<close>

fun count_provides :: "string list \<Rightarrow> string \<Rightarrow> string list \<Rightarrow> (string \<times> nat) list \<Rightarrow> (string \<times> nat) list" where
  "count_provides removals package [] vp = vp"
| "count_provides removals package (piece # rest) vp =
     (let virtual_pkg = strip piece in
      if virtual_pkg = package then count_provides removals package rest vp
      else
        (let vp1 = (if map_of vp virtual_pkg = None then AList.update virtual_pkg 0 vp else vp);
             vp2 = (if package \<notin> set removals then
                      (case map_of vp1 virtual_pkg of
                         None \<Rightarrow> vp1
                       | Some c \<Rightarrow> AList.update virtual_pkg (c + 1) vp1)
                    else vp1)
         in count_provides removals package rest vp2))"

text \<open>The body of the loop over the rows of the query, and the loop.\<close>

fun read_row :: "string list \<Rightarrow> binary_row \<Rightarrow> analysis \<Rightarrow> analysis" where
  "read_row removals (package, source, component, depends, provides) a =
     (let a1 = a\<lparr>sources := AList.update package source (sources a),
                  p2c := AList.update package component (p2c a)\<rparr>;
          a2 = (case depends of
                  None \<Rightarrow> a1
                | Some d \<Rightarrow> a1\<lparr>deps := AList.update package d (deps a1)\<rparr>)
      in case provides of
           None \<Rightarrow> a2
         | Some pr \<Rightarrow>
             a2\<lparr>virtual_packages :=
                   count_provides removals package (split_on (CHR '','') pr)
                     (virtual_packages a2)\<rparr>)"

fun read_rows :: "string list \<Rightarrow> binary_row list \<Rightarrow> analysis \<Rightarrow> analysis" where
  "read_rows removals [] a = a"
| "read_rows removals (row # rows) a = read_rows removals rows (read_row removals row a)"

text \<open>
  The loop \<open>for dep_package, _, _ in dep\<close> that counts in \<open>unsat\<close> the alternatives whose
  package is \<open>in removals\<close>.
\<close>

fun unsat_count :: "string list \<Rightarrow> alternative list \<Rightarrow> nat" where
  "unsat_count removals [] = 0"
| "unsat_count removals ((dep_package, _) # dep) =
     (if dep_package \<in> set removals then 1 else 0) + unsat_count removals dep"

definition source_key :: "string \<Rightarrow> string \<Rightarrow> string" where
  "source_key source component =
     (if component \<noteq> ''main'' then source @ ''/'' @ component else source)"

text \<open>The body of the loop \<open>for dep in parsed_dep\<close> of the binary pass, and the loop.\<close>

definition check_dep :: "string list \<Rightarrow> string \<Rightarrow> string \<Rightarrow> alternative list \<Rightarrow> analysis \<Rightarrow> exn + analysis" where
  "check_dep removals architecture package dep a =
     (if unsat_count removals dep = length dep then
        (case map_of (p2c a) package of
           None \<Rightarrow> Inl (KeyError package)
         | Some component \<Rightarrow>
             (case map_of (sources a) package of
                None \<Rightarrow> Inl (KeyError package)
              | Some source \<Rightarrow>
                  Inr (a\<lparr>all_broken :=
                            List.insert (source_key source component, package, architecture)
                              (all_broken a),
                          dep_problem := True\<rparr>)))
      else Inr a)"

fun check_deps :: "string list \<Rightarrow> string \<Rightarrow> string \<Rightarrow> alternative list list \<Rightarrow> analysis \<Rightarrow> exn + analysis" where
  "check_deps removals architecture package [] a = Inr a"
| "check_deps removals architecture package (dep # parsed_dep) a =
     (case check_dep removals architecture package dep a of
        Inl e \<Rightarrow> Inl e
      | Inr a' \<Rightarrow> check_deps removals architecture package parsed_dep a')"

text \<open>
  The body of the loop \<open>for package in deps\<close>, and the loop over the keys of \<open>deps\<close>. A
  text that \<open>parse_depends\<close> rejects is reported and read as no clause at all.
\<close>

definition check_package :: "apt_pkg \<Rightarrow> string list \<Rightarrow> string \<Rightarrow> string \<Rightarrow> analysis \<Rightarrow> exn + analysis" where
  "check_package apt removals architecture package a =
     (if package \<in> set removals then Inr a
      else
        (case map_of (deps a) package of
           None \<Rightarrow> Inl (KeyError package)
         | Some text \<Rightarrow>
             check_deps removals architecture package
               (case parse_depends apt text of None \<Rightarrow> [] | Some parsed_dep \<Rightarrow> parsed_dep) a))"

fun check_packages :: "apt_pkg \<Rightarrow> string list \<Rightarrow> string \<Rightarrow> string list \<Rightarrow> analysis \<Rightarrow> exn + analysis" where
  "check_packages apt removals architecture [] a = Inr a"
| "check_packages apt removals architecture (package # packages) a =
     (case check_package apt removals architecture package a of
        Inl e \<Rightarrow> Inl e
      | Inr a' \<Rightarrow> check_packages apt removals architecture packages a')"

text \<open>
  The body of the loop \<open>for architecture in rdep_architectures\<close>: the rows are read, the
  virtual packages whose counter is 0 are added to \<open>removal_set\<close>, and the dependencies
  of the packages are checked, where membership is tested against \<open>removals\<close>.
\<close>

definition check_architecture :: "apt_pkg \<Rightarrow> store \<Rightarrow> string list \<Rightarrow> string \<Rightarrow> analysis \<Rightarrow> exn + analysis" where
  "check_architecture apt db removals architecture a =
     (let a0 = a\<lparr>deps := [], sources := [], virtual_packages := []\<rparr> in
      case binaries db architecture of
        None \<Rightarrow> Inr a0
      | Some rows \<Rightarrow>
          (let a1 = read_rows removals rows a0;
               a2 = a1\<lparr>removal_set :=
                         fold List.insert
                           (map fst (filter (\<lambda>vc. snd vc = 0) (virtual_packages a1)))
                           (removal_set a1)\<rparr>
           in check_packages apt removals architecture (map fst (deps a2)) a2))"

fun check_architectures :: "apt_pkg \<Rightarrow> store \<Rightarrow> string list \<Rightarrow> string list \<Rightarrow> analysis \<Rightarrow> exn + analysis" where
  "check_architectures apt db removals [] a = Inr a"
| "check_architectures apt db removals (architecture # rest) a =
     (case check_architecture apt db removals architecture a of
        Inl e \<Rightarrow> Inl e
      | Inr a' \<Rightarrow> check_architectures apt db removals rest a')"

text \<open>
  The architectures of the loop. A Python set has no order of its own; the list fixes
  one, on which the result does not depend.
\<close>

definition rdep_architectures :: "store \<Rightarrow> string list option \<Rightarrow> bool \<Rightarrow> string list" where
  "rdep_architectures db arches include_arch_all =
     (let all_arches =
            filter (\<lambda>x. x \<noteq> ''source'' \<and> x \<noteq> ''all'')
              (remdups (case arches of
                          None \<Rightarrow> suite_architectures db
                        | Some [] \<Rightarrow> suite_architectures db
                        | Some (x # xs) \<Rightarrow> x # xs))
      in if include_arch_all then all_arches @ [''all''] else all_arches)"

text \<open>\<open>pp_deps\<close>, which prints a clause.\<close>

fun pp_dep :: "alternative \<Rightarrow> string" where
  "pp_dep (pkg, constraint, version) =
     (if constraint \<noteq> [] then pkg @ '' ('' @ constraint @ '' '' @ version @ '')'' else pkg)"

definition pp_deps :: "alternative list \<Rightarrow> string" where
  "pp_deps dep = join '' |'' (map pp_dep dep)"

text \<open>
  \<open>re.sub('/(contrib|non-free-firmware|non-free)$', '', source)\<close>; \<open>$\<close> matches at the
  end of the text and before a newline that ends it.
\<close>

definition ends_with :: "string \<Rightarrow> string \<Rightarrow> bool" where
  "ends_with p s = (length p \<le> length s \<and> drop (length s - length p) s = p)"

definition drop_component :: "string \<Rightarrow> string" where
  "drop_component s =
     (if ends_with ''/contrib'' s then take (length s - 8) s
      else if ends_with ''/non-free-firmware'' s then take (length s - 18) s
      else if ends_with ''/non-free'' s then take (length s - 9) s
      else s)"

definition sub_component :: "string \<Rightarrow> string" where
  "sub_component source =
     (if source \<noteq> [] \<and> last source = nl then drop_component (butlast source) @ [nl]
      else drop_component source)"

text \<open>
  The source pass: the body of the loop \<open>for dep in parsed_dep\<close>, the loop, the body of
  the loop over the rows (source, build_dep), and the loop. Unpacking the result of
  \<open>first()\<close> raises \<open>TypeError\<close> when the query has no row.
\<close>

definition check_source_dep :: "store \<Rightarrow> string list \<Rightarrow> string \<Rightarrow> alternative list \<Rightarrow> analysis \<Rightarrow> exn + analysis" where
  "check_source_dep db removals source dep a =
     (if unsat_count removals dep = length dep then
        (case dsc_component db (sub_component source) of
           None \<Rightarrow> Inl TypeError
         | Some component \<Rightarrow>
             Inr (a\<lparr>all_broken_bd :=
                       List.insert (source_key source component, pp_deps dep) (all_broken_bd a),
                     dep_problem := True\<rparr>))
      else Inr a)"

fun check_source_deps :: "store \<Rightarrow> string list \<Rightarrow> string \<Rightarrow> alternative list list \<Rightarrow> analysis \<Rightarrow> exn + analysis" where
  "check_source_deps db removals source [] a = Inr a"
| "check_source_deps db removals source (dep # parsed_dep) a =
     (case check_source_dep db removals source dep a of
        Inl e \<Rightarrow> Inl e
      | Inr a' \<Rightarrow> check_source_deps db removals source parsed_dep a')"

fun check_source :: "regexes \<Rightarrow> apt_pkg \<Rightarrow> store \<Rightarrow> string list \<Rightarrow> string \<times> string option \<Rightarrow> analysis \<Rightarrow> exn + analysis" where
  "check_source rx apt db removals (source, build_dep) a =
     (if source \<in> set removals then Inr a
      else
        check_source_deps db removals source
          (case build_dep of
             None \<Rightarrow> []
           | Some text \<Rightarrow>
               (case parse_src_depends apt (re_build_dep_arch rx text) of
                  None \<Rightarrow> []
                | Some parsed_dep \<Rightarrow> parsed_dep)) a)"

fun check_sources :: "regexes \<Rightarrow> apt_pkg \<Rightarrow> store \<Rightarrow> string list \<Rightarrow> (string \<times> string option) list \<Rightarrow> analysis \<Rightarrow> exn + analysis" where
  "check_sources rx apt db removals [] a = Inr a"
| "check_sources rx apt db removals (row # rows) a =
     (case check_source rx apt db removals row a of
        Inl e \<Rightarrow> Inl e
      | Inr a' \<Rightarrow> check_sources rx apt db removals rows a')"

text \<open>
  The whole analysis, with the variables at the end. The suite is taken as resolved (its
  rows are the store), and the report printed unless \<open>quiet\<close> is not part of the result.
\<close>

definition analysis_init :: "string list \<Rightarrow> analysis" where
  "analysis_init removals =
     \<lparr>dep_problem = False, p2c = [], removal_set = remdups removals, all_broken = [],
      all_broken_bd = [], sources = [], deps = [], virtual_packages = []\<rparr>"

definition analyse :: "regexes \<Rightarrow> apt_pkg \<Rightarrow> store \<Rightarrow> string list \<Rightarrow> string list option \<Rightarrow> bool \<Rightarrow> exn + analysis" where
  "analyse rx apt db removals arches include_arch_all =
     (case check_architectures apt db removals
             (rdep_architectures db arches include_arch_all) (analysis_init removals) of
        Inl e \<Rightarrow> Inl e
      | Inr a \<Rightarrow> check_sources rx apt db removals (source_build_deps db include_arch_all) a)"

text \<open>\<open>check_reverse_depends\<close> returns \<open>dep_problem\<close>.\<close>

definition check_reverse_depends :: "regexes \<Rightarrow> apt_pkg \<Rightarrow> store \<Rightarrow> string list \<Rightarrow> string list option \<Rightarrow> bool \<Rightarrow> exn + bool" where
  "check_reverse_depends rx apt db removals arches include_arch_all =
     (case analyse rx apt db removals arches include_arch_all of
        Inl e \<Rightarrow> Inl e
      | Inr a \<Rightarrow> Inr (dep_problem a))"

section \<open>A dependency parser and two stores for the examples\<close>

text \<open>
  An instance of the parsers of python-apt for the examples. It reads clauses separated
  by commas, alternatives separated by \<open>|\<close>, and an alternative of the shape \<open>name\<close> or
  \<open>name (op version)\<close>; the empty text has no clause, and any other text is a
  \<open>ValueError\<close>.
\<close>

definition parse_alternative :: "string \<Rightarrow> alternative option" where
  "parse_alternative text =
     (let t = strip text;
          name = takeWhile (\<lambda>c. \<not> is_space c \<and> c \<noteq> CHR ''('') t;
          r = strip (drop (length name) t)
      in if name = [] then None
         else if r = [] then Some (name, [], [])
         else if 2 \<le> length r \<and> hd r = CHR ''('' \<and> last r = CHR '')'' then
           (let inner = strip (butlast (tl r));
                op = takeWhile (\<lambda>c. c \<in> set ''<>='') inner;
                version = strip (drop (length op) inner)
            in if version = [] then None else Some (name, version, op))
         else None)"

fun those_all :: "'a option list \<Rightarrow> 'a list option" where
  "those_all [] = Some []"
| "those_all (None # xs) = None"
| "those_all (Some x # xs) = (case those_all xs of None \<Rightarrow> None | Some ys \<Rightarrow> Some (x # ys))"

definition parse_clauses :: "string \<Rightarrow> alternative list list option" where
  "parse_clauses text =
     (if strip text = [] then Some []
      else those_all (map (\<lambda>clause. those_all (map parse_alternative (split_on (CHR ''|'') clause)))
                          (split_on (CHR '','') text)))"

definition apt :: apt_pkg where
  "apt = \<lparr>parse_depends = parse_clauses, parse_src_depends = parse_clauses\<rparr>"

text \<open>
  The store of the virtual closure: on \<open>amd64\<close>, the package \<open>a\<close> depends on \<open>v\<close>, and \<open>v\<close>
  is provided by the package \<open>b\<close> alone.
\<close>

definition closure_binaries :: "string \<Rightarrow> binary_row list option" where
  "closure_binaries arch =
     (if arch = ''amd64'' then
        Some [(''a'', ''a-src'', ''main'', Some ''v'', None),
              (''b'', ''b-src'', ''main'', None, Some ''v'')]
      else if arch = ''all'' then Some []
      else None)"

definition no_build_deps :: "bool \<Rightarrow> (string \<times> string option) list" where
  "no_build_deps include_arch_all = []"

definition main_component :: "string \<Rightarrow> string option" where
  "main_component package = Some ''main''"

definition closure_store :: store where
  "closure_store =
     \<lparr>suite_architectures = [''amd64''], binaries = closure_binaries,
      source_build_deps = no_build_deps, dsc_component = main_component\<rparr>"

text \<open>
  The variables of the closure store after the architecture \<open>amd64\<close>, with \<open>b\<close> to remove:
  \<open>v\<close> has been added to \<open>removal_set\<close>.
\<close>

definition closure_state :: analysis where
  "closure_state =
     \<lparr>dep_problem = False, p2c = [(''a'', ''main''), (''b'', ''main'')],
      removal_set = [''v'', ''b''], all_broken = [], all_broken_bd = [],
      sources = [(''a'', ''a-src''), (''b'', ''b-src'')],
      deps = [(''a'', ''v'')], virtual_packages = [(''v'', 0)]\<rparr>"

text \<open>
  The store of the alternatives: on \<open>amd64\<close>, the package \<open>a\<close> depends on \<open>b | d\<close> and
  the package \<open>c\<close>, of the component \<open>contrib\<close>, depends on \<open>b\<close>.
\<close>

definition alternatives_binaries :: "string \<Rightarrow> binary_row list option" where
  "alternatives_binaries arch =
     (if arch = ''amd64'' then
        Some [(''a'', ''a-src'', ''main'', Some ''b | d'', None),
              (''c'', ''c-src'', ''contrib'', Some ''b'', None),
              (''b'', ''b-src'', ''main'', None, None),
              (''d'', ''d-src'', ''main'', None, None)]
      else if arch = ''all'' then Some []
      else None)"

definition alternatives_store :: store where
  "alternatives_store =
     \<lparr>suite_architectures = [''amd64''], binaries = alternatives_binaries,
      source_build_deps = no_build_deps, dsc_component = main_component\<rparr>"

section \<open>An instance of the patterns\<close>

text \<open>
  The theorems below hold for every value of the patterns. Concrete inputs are evaluated
  with the following instance.
\<close>

text \<open>
  Modelled from the spec: \<open>re_single_line_field\<close> of \<open>daklib/regexes.py\<close>, which is not
  among the sources. A single-line field has the shape \<open>Key: value\<close>: a key without
  whitespace or colon, a colon with the whitespace around it skipped, and the rest of the
  line as the value (which may be empty).
\<close>

definition single_line_field :: "string \<Rightarrow> (string \<times> string) option" where
  "single_line_field line =
     (let k = takeWhile (\<lambda>c. \<not> is_space c \<and> c \<noteq> CHR '':'') line;
          r = dropWhile is_space (drop (length k) line)
      in case r of
           [] \<Rightarrow> None
         | c # v \<Rightarrow> if c = CHR '':'' then Some (k, dropWhile is_space v) else None)"

text \<open>
  Modelled from the spec: \<open>re_multi_line_field\<close> of \<open>daklib/regexes.py\<close>, which is not
  among the sources. A continuation line begins with whitespace; what it contributes is
  its trimmed content.
\<close>

definition multi_line_field :: "string \<Rightarrow> string option" where
  "multi_line_field line =
     (case line of
        [] \<Rightarrow> None
      | c # _ \<Rightarrow> if is_space c then Some (strip line) else None)"

text \<open>
  Modelled from the spec: \<open>re_srchasver\<close> of \<open>daklib/regexes.py\<close>, which is not among the
  sources. The pattern \<open>name (version)\<close>: a name and a version without whitespace, both
  non-empty, whitespace between the name and the opening parenthesis, and nothing after
  the closing one.
\<close>

definition srchasver :: "string \<Rightarrow> (string \<times> string) option" where
  "srchasver s =
     (let name = takeWhile (\<lambda>c. \<not> is_space c) s;
          r = dropWhile (\<lambda>c. \<not> is_space c) s;
          p = dropWhile is_space r
      in case p of
           [] \<Rightarrow> None
         | c # v \<Rightarrow>
             if name \<noteq> [] \<and> r \<noteq> p \<and> c = CHR ''('' \<and> 2 \<le> length v \<and>
                last v = CHR '')'' \<and> list_all (\<lambda>c. \<not> is_space c) v
             then Some (name, butlast v) else None)"

text \<open>
  Modelled from the spec: \<open>re_issource\<close> of \<open>daklib/regexes.py\<close>, which is not among the
  sources; the spec calls it the overall pattern of a plausible source file name. The
  instance accepts \<open>name_version.ext\<close> with a non-empty name and version, for the
  extensions of the rule table of \<open>check_dsc_files\<close> that carry no component name and for
  \<open>dsc\<close>; the longest extension that fits is the one matched.
\<close>

definition source_extensions :: "string list" where
  "source_extensions =
     [''orig.tar.bz2.asc'', ''orig.tar.gz.asc'', ''orig.tar.xz.asc'',
      ''debian.tar.bz2'', ''debian.tar.gz'', ''debian.tar.xz'',
      ''orig.tar.bz2'', ''orig.tar.gz'', ''orig.tar.xz'',
      ''tar.bz2'', ''diff.gz'', ''tar.gz'', ''tar.xz'', ''dsc'']"

definition has_extension :: "string \<Rightarrow> string \<Rightarrow> bool" where
  "has_extension f ext =
     (let n = length f - (length ext + 1); stem = take n f
      in length ext + 1 \<le> length f \<and> drop n f = CHR ''.'' # ext \<and>
         list_ex (\<lambda>i. stem ! i = CHR ''_'') [1 ..< length stem - 1])"

definition issource :: "string \<Rightarrow> string option" where
  "issource f = List.find (has_extension f) source_extensions"

text \<open>
  Modelled from the spec: \<open>re_build_dep_arch\<close> of \<open>daklib/regexes.py\<close>, which is not among
  the sources. The architecture qualifiers of a build dependency, \<open>[...]\<close> with a
  non-empty content, are removed from the text.
\<close>

fun build_dep_arch :: "string \<Rightarrow> string" where
  "build_dep_arch [] = []"
| "build_dep_arch (c # cs) =
     (let q = takeWhile (\<lambda>x. x \<noteq> CHR '']'') cs
      in if c = CHR ''['' \<and> q \<noteq> [] \<and> length q < length cs
         then build_dep_arch (drop (Suc (length q)) cs)
         else c # build_dep_arch cs)"

definition dak_regexes :: regexes where
  "dak_regexes =
     \<lparr>re_single_line_field = single_line_field,
      re_multi_line_field = multi_line_field,
      re_srchasver = srchasver,
      re_issource = issource,
      re_build_dep_arch = build_dep_arch\<rparr>"

section \<open>Properties of parse_deb822\<close>

lemma splitlines_from_Nil_iff: "splitlines_from cur s = [] \<longleftrightarrow> cur = [] \<and> s = []"
  by (induction cur s rule: splitlines_from.induct) auto

lemma splitlines_Nil_iff: "splitlines s = [] \<longleftrightarrow> s = []"
  by (simp add: splitlines_def splitlines_from_Nil_iff)

text \<open>
  C10. A payload that splits into zero lines (by \<open>splitlines_Nil_iff\<close>, the empty payload)
  makes \<open>parse_deb822\<close> raise \<open>ParseChangesError("[Empty changes file]")\<close>; no record is
  returned for it.
\<close>

theorem parse_deb822_empty:
  "length (splitlines contents) = 0 \<Longrightarrow>
   parse_deb822 rx armored_contents contents signing_rules
     = Inl (ParseChangesError ''[Empty changes file]'')"
  by (simp add: parse_deb822_def)

theorem parse_deb822_empty_witness:
  "length (splitlines []) = 0 \<and>
   parse_deb822 dak_regexes [] [] 0 = Inl (ParseChangesError ''[Empty changes file]'')"
  using parse_deb822_empty [of "[]" dak_regexes "[]" 0]
  by (simp add: splitlines_def)

text \<open>
  C9. Let \<open>parse_deb822\<close> return the record \<open>r\<close>, and let \<open>st\<close> be the state at the end of
  the scan. If the scanned \<open>source\<close> value matches \<open>re_srchasver\<close> with groups \<open>name\<close> and
  \<open>version\<close>, then \<open>r\<close> is the scanned record (with \<open>filecontents\<close>) where \<open>source\<close> holds
  \<open>name\<close> and \<open>source-version\<close> holds \<open>version\<close>. If there is no \<open>source\<close> field, or
  its value does not match, \<open>r\<close> is the scanned record with \<open>filecontents\<close> and nothing
  else: \<open>source\<close> is as scanned and no \<open>source-version\<close> is added.
\<close>

theorem parse_deb822_source_version:
  assumes "parse_deb822 rx armored_contents contents signing_rules = Inr r"
  shows "\<exists>st. scan rx signing_rules (length (indexed_lines contents)) 0
                 (indexed_lines contents) scan_init = Inr st \<and>
              (case map_of (changes st) ''source'' of
                 None \<Rightarrow> r = AList.update ''filecontents'' armored_contents (changes st)
               | Some s \<Rightarrow>
                   (case re_srchasver rx s of
                      None \<Rightarrow> r = AList.update ''filecontents'' armored_contents (changes st)
                    | Some (name, version) \<Rightarrow>
                        map_of r =
                          (map_of (AList.update ''filecontents'' armored_contents (changes st)))
                            (''source'' \<mapsto> name, ''source-version'' \<mapsto> version)))"
  using assms
  by (auto simp: parse_deb822_def indexed_lines_def Let_def split_source_def update_conv'
           split: if_splits sum.splits option.splits)

theorem parse_deb822_source_version_witness:
  "parse_deb822 dak_regexes ''raw'' (''Source: foo (1.2-3)'' @ [nl]) 0
     = Inr [(''source'', ''foo''), (''filecontents'', ''raw''),
            (''source-version'', ''1.2-3'')] \<and>
   parse_deb822 dak_regexes ''raw'' (''Source: foo'' @ [nl]) 0
     = Inr [(''source'', ''foo''), (''filecontents'', ''raw'')] \<and>
   (\<exists>st. scan dak_regexes 0 (length (indexed_lines (''Source: foo (1.2-3)'' @ [nl]))) 0
            (indexed_lines (''Source: foo (1.2-3)'' @ [nl])) scan_init = Inr st \<and>
         map_of (changes st) ''source'' = Some ''foo (1.2-3)'' \<and>
         re_srchasver dak_regexes ''foo (1.2-3)'' = Some (''foo'', ''1.2-3''))"
proof -
  have h: "parse_deb822 dak_regexes ''raw'' (''Source: foo (1.2-3)'' @ [nl]) 0
     = Inr [(''source'', ''foo''), (''filecontents'', ''raw''),
            (''source-version'', ''1.2-3'')]"
    by code_simp
  have h': "parse_deb822 dak_regexes ''raw'' (''Source: foo'' @ [nl]) 0
     = Inr [(''source'', ''foo''), (''filecontents'', ''raw'')]"
    by code_simp
  have s: "scan dak_regexes 0 (length (indexed_lines (''Source: foo (1.2-3)'' @ [nl]))) 0
            (indexed_lines (''Source: foo (1.2-3)'' @ [nl])) scan_init
     = Inr \<lparr>changes = [(''source'', ''foo (1.2-3)'')], field = Some ''source'',
            first = 1, error = []\<rparr>"
    by code_simp
  have m: "re_srchasver dak_regexes ''foo (1.2-3)'' = Some (''foo'', ''1.2-3'')"
    by code_simp
  from parse_deb822_source_version [OF h] s m h h' show ?thesis
    by simp
qed

subsection \<open>The scanning loop\<close>

lemma scan_line_Break_iff:
  "scan_line rx signing_rules n i l st = Break \<longleftrightarrow> l = [] \<and> signing_rules = 1 \<and> i = n"
  by (simp add: scan_line_def split: option.splits prod.splits)

lemma scan_line_strict_empty:
  "scan_line rx 1 n i [] st = (if i \<noteq> n then Raise (InvalidDscError i) else Break)"
  by (simp add: scan_line_def)

lemma scan_line_index:
  "\<not> (l = [] \<and> signing_rules = 1) \<Longrightarrow>
   scan_line rx signing_rules n i l st = scan_line rx signing_rules n' i' l st"
  by (cases "l = []"; cases "signing_rules = 1"; simp add: scan_line_def)

lemma scan_line_bad:
  "bad_line rx l \<Longrightarrow> scan_line rx signing_rules n i l st = Next (st\<lparr>error := error st @ l\<rparr>)"
  by (simp add: scan_line_def bad_line_def)

lemma scan_line_good_error:
  "\<not> bad_line rx l \<Longrightarrow> scan_line rx signing_rules n i l st = Next st1 \<Longrightarrow>
   scan_line rx signing_rules n' i' l (st\<lparr>error := e\<rparr>) = Next (st1\<lparr>error := e\<rparr>) \<and>
   error st1 = error st"
  by (auto simp: scan_line_def bad_line_def split: option.splits prod.splits if_splits)

lemma scan_append:
  "signing_rules \<noteq> 1 \<or> [] \<notin> set pre \<Longrightarrow>
   scan rx signing_rules n idx (pre @ rest) st =
     (case scan rx signing_rules n idx pre st of
        Inl e \<Rightarrow> Inl e
      | Inr st1 \<Rightarrow> scan rx signing_rules n (idx + length pre) rest st1)"
proof (induction pre arbitrary: idx st)
  case Nil
  show ?case by simp
next
  case (Cons l pre)
  from Cons.prems have p: "signing_rules \<noteq> 1 \<or> [] \<notin> set pre"
    and l: "\<not> (l = [] \<and> signing_rules = 1)"
    by auto
  from l have nb: "scan_line rx signing_rules n (Suc idx) l st \<noteq> Break"
    by (auto simp: scan_line_Break_iff)
  show ?case
    using nb by (auto simp: Cons.IH [OF p] split: outcome.splits sum.splits)
qed

lemma scan_filter_bad:
  "scan rx signing_rules (idx + length ls) idx ls st = Inr st' \<Longrightarrow>
   error st' = error st @ concat (filter (bad_line rx) ls) \<and>
   scan rx signing_rules (idx2 + length (filter (\<lambda>l. \<not> bad_line rx l) ls)) idx2
        (filter (\<lambda>l. \<not> bad_line rx l) ls) (st\<lparr>error := e\<rparr>) = Inr (st'\<lparr>error := e\<rparr>)"
proof (induction ls arbitrary: idx idx2 st)
  case Nil
  then show ?case by simp
next
  case (Cons l ls)
  let ?n = "idx + length (l # ls)"
  show ?case
  proof (cases "scan_line rx signing_rules ?n (Suc idx) l st")
    case (Raise x)
    with Cons.prems show ?thesis by simp
  next
    case Break
    then have l: "l = []" "signing_rules = 1" "ls = []"
      by (auto simp: scan_line_Break_iff)
    from Break Cons.prems have "st' = st" by simp
    with l show ?thesis
      by (simp add: bad_line_def scan_line_strict_empty)
  next
    case (Next st1)
    with Cons.prems
    have run: "scan rx signing_rules (Suc idx + length ls) (Suc idx) ls st1 = Inr st'"
      by simp
    show ?thesis
    proof (cases "bad_line rx l")
      case True
      with Next have st1: "st1 = st\<lparr>error := error st @ l\<rparr>"
        by (simp add: scan_line_bad)
      from Cons.IH [OF run, of idx2] True st1 show ?thesis
        by simp
    next
      case False
      note g = scan_line_good_error [OF False Next]
      from g [of "Suc (idx2 + length (filter (\<lambda>l. \<not> bad_line rx l) ls))" "Suc idx2" e]
           Cons.IH [OF run, of "Suc idx2"] False
      show ?thesis
        by simp
    qed
  qed
qed





text \<open>
  C7, as the code has it. In strict mode (\<open>signing_rules = 1\<close>), let the first empty line
  of the payload stand after the lines \<open>pre\<close>, which the loop reads without raising. If
  it is the last line, the loop is left there with the state reached; if not, the loop
  and \<open>parse_deb822\<close> raise \<open>InvalidDscError\<close> with the 1-based index of that line.
\<close>

theorem strict_mode_empty_line:
  assumes "indexed_lines contents = pre @ [] # post"
    and "[] \<notin> set pre"
    and "scan rx 1 (length (indexed_lines contents)) 0 pre scan_init = Inr st1"
  shows "scan rx 1 (length (indexed_lines contents)) 0 (indexed_lines contents) scan_init
           = (if post = [] then Inr st1 else Inl (InvalidDscError (Suc (length pre)))) \<and>
         (post \<noteq> [] \<longrightarrow>
            parse_deb822 rx armored_contents contents 1
              = Inl (InvalidDscError (Suc (length pre))))"
proof -
  let ?n = "length (indexed_lines contents)"
  have n: "?n = Suc (length pre + length post)"
    by (simp add: assms(1))
  have "scan rx 1 ?n 0 (pre @ [] # post) scan_init = scan rx 1 ?n (length pre) ([] # post) st1"
    using assms(2,3) by (simp add: scan_append)
  also have "\<dots> = (if post = [] then Inr st1 else Inl (InvalidDscError (Suc (length pre))))"
    by (simp add: scan_line_strict_empty n)
  finally have s: "scan rx 1 ?n 0 (indexed_lines contents) scan_init
           = (if post = [] then Inr st1 else Inl (InvalidDscError (Suc (length pre))))"
    by (simp add: assms(1))
  have ne: "splitlines contents \<noteq> []"
    using assms(1) by (auto simp: indexed_lines_def)
  from s ne show ?thesis
    by (auto simp: parse_deb822_def indexed_lines_def Let_def)
qed

theorem strict_mode_empty_line_witness:
  "indexed_lines (''A: b'' @ [nl, nl] @ ''C: d'' @ [nl]) = [''A: b''] @ [] # [''C: d''] \<and>
   [] \<notin> set [''A: b''] \<and>
   scan dak_regexes 1 (length (indexed_lines (''A: b'' @ [nl, nl] @ ''C: d'' @ [nl]))) 0
        [''A: b''] scan_init
     = Inr \<lparr>changes = [(''a'', ''b'')], field = Some ''a'', first = 1, error = []\<rparr> \<and>
   parse_deb822 dak_regexes ''raw'' (''A: b'' @ [nl, nl] @ ''C: d'' @ [nl]) 1
     = Inl (InvalidDscError 2)"
proof -
  have h1: "indexed_lines (''A: b'' @ [nl, nl] @ ''C: d'' @ [nl]) = [''A: b''] @ [] # [''C: d'']"
    by code_simp
  have h2: "[] \<notin> set [''A: b'']"
    by simp
  have h3: "scan dak_regexes 1 (length (indexed_lines (''A: b'' @ [nl, nl] @ ''C: d'' @ [nl]))) 0
        [''A: b''] scan_init
     = Inr \<lparr>changes = [(''a'', ''b'')], field = Some ''a'', first = 1, error = []\<rparr>"
    by code_simp
  from strict_mode_empty_line [OF h1 h2 h3, of "''raw''"] h1 h2 h3 show ?thesis
    by simp
qed

text \<open>
  C7 as stated fails: in strict mode, with a continuation line before any field, the
  empty line at index 2 of 3 is never reached; the parse raises \<open>ParseChangesError\<close> for
  line 1, not \<open>InvalidDscError(2)\<close>.
\<close>

theorem strict_mode_empty_line_counterexample:
  "indexed_lines ('' x'' @ [nl, nl] @ ''A: b'' @ [nl]) = ['' x'', [], ''A: b''] \<and>
   parse_deb822 dak_regexes ''raw'' ('' x'' @ [nl, nl] @ ''A: b'' @ [nl]) 1
     = Inl (ParseChangesError
              ([apostrophe] @ '' x'' @ [apostrophe, nl] @
               '' [Multi-line field continuing on from nothing?]'')) \<and>
   parse_deb822 dak_regexes ''raw'' ('' x'' @ [nl, nl] @ ''A: b'' @ [nl]) 1
     \<noteq> Inl (InvalidDscError 2)"
  by code_simp

lemma concat_bad_lines_nonempty:
  "list_ex (bad_line rx) ls \<Longrightarrow> concat (filter (bad_line rx) ls) \<noteq> []"
proof -
  assume "list_ex (bad_line rx) ls"
  then obtain x where "x \<in> set ls" "bad_line rx x"
    by (auto simp: list_ex_iff)
  then have "x \<in> set (filter (bad_line rx) ls)" "x \<noteq> []"
    by (simp_all add: bad_line_def)
  then show ?thesis
    by (auto simp del: set_filter)
qed

text \<open>
  C3, as the code has it. If the loop reads the lines of the payload without raising an
  exception of its own, and at least one of them is a bad line, then \<open>parse_deb822\<close>
  raises one \<open>ParseChangesError\<close> whose message is the concatenation of exactly the bad
  lines, in their order, each as the loop reads it; and the fields are those the loop
  finds in the payload without its bad lines.
\<close>

theorem parse_deb822_bad_lines:
  assumes "scan rx signing_rules (length (indexed_lines contents)) 0
             (indexed_lines contents) scan_init = Inr st"
    and "list_ex (bad_line rx) (indexed_lines contents)"
  shows "parse_deb822 rx armored_contents contents signing_rules
           = Inl (ParseChangesError (concat (filter (bad_line rx) (indexed_lines contents)))) \<and>
         scan rx signing_rules
              (length (filter (\<lambda>l. \<not> bad_line rx l) (indexed_lines contents))) 0
              (filter (\<lambda>l. \<not> bad_line rx l) (indexed_lines contents)) scan_init
           = Inr (st\<lparr>error := []\<rparr>)"
proof -
  let ?ls = "indexed_lines contents"
  from assms(1) have "scan rx signing_rules (0 + length ?ls) 0 ?ls scan_init = Inr st"
    by simp
  from scan_filter_bad [OF this, of 0 "[]"]
  have e: "error st = concat (filter (bad_line rx) ?ls)"
    and g: "scan rx signing_rules (length (filter (\<lambda>l. \<not> bad_line rx l) ?ls)) 0
              (filter (\<lambda>l. \<not> bad_line rx l) ?ls) (scan_init\<lparr>error := []\<rparr>)
            = Inr (st\<lparr>error := []\<rparr>)"
    by (simp_all add: scan_init_def)
  have i: "scan_init\<lparr>error := []\<rparr> = scan_init"
    by (simp add: scan_init_def)
  from assms(2) have ne: "error st \<noteq> []"
    unfolding e by (rule concat_bad_lines_nonempty)
  from assms(2) have sl: "splitlines contents \<noteq> []"
    by (auto simp: indexed_lines_def)
  from assms(1) ne sl e have "parse_deb822 rx armored_contents contents signing_rules
           = Inl (ParseChangesError (concat (filter (bad_line rx) ?ls)))"
    by (simp add: parse_deb822_def indexed_lines_def Let_def)
  with g i show ?thesis by simp
qed

theorem parse_deb822_bad_lines_witness:
  "scan dak_regexes 0 (length (indexed_lines (''bogus'' @ [nl] @ ''A: b'' @ [nl] @ ''junk'' @ [nl]))) 0
        (indexed_lines (''bogus'' @ [nl] @ ''A: b'' @ [nl] @ ''junk'' @ [nl])) scan_init
     = Inr \<lparr>changes = [(''a'', ''b'')], field = Some ''a'', first = 1, error = ''bogusjunk''\<rparr> \<and>
   filter (bad_line dak_regexes) (indexed_lines (''bogus'' @ [nl] @ ''A: b'' @ [nl] @ ''junk'' @ [nl]))
     = [''bogus'', ''junk''] \<and>
   parse_deb822 dak_regexes ''raw'' (''bogus'' @ [nl] @ ''A: b'' @ [nl] @ ''junk'' @ [nl]) 0
     = Inl (ParseChangesError ''bogusjunk'') \<and>
   scan dak_regexes 0 1 0 [''A: b''] scan_init
     = Inr \<lparr>changes = [(''a'', ''b'')], field = Some ''a'', first = 1, error = []\<rparr>"
proof -
  let ?c = "''bogus'' @ [nl] @ ''A: b'' @ [nl] @ ''junk'' @ [nl]"
  have h1: "scan dak_regexes 0 (length (indexed_lines ?c)) 0 (indexed_lines ?c) scan_init
     = Inr \<lparr>changes = [(''a'', ''b'')], field = Some ''a'', first = 1, error = ''bogusjunk''\<rparr>"
    by code_simp
  have h2: "list_ex (bad_line dak_regexes) (indexed_lines ?c)"
    by code_simp
  have f: "filter (bad_line dak_regexes) (indexed_lines ?c) = [''bogus'', ''junk'']"
    by code_simp
  have g: "filter (\<lambda>l. \<not> bad_line dak_regexes l) (indexed_lines ?c) = [''A: b'']"
    by code_simp
  from parse_deb822_bad_lines [OF h1 h2, of "''raw''"] h1 f g show ?thesis
    by simp
qed

text \<open>
  C3 as stated fails: the payload has one bad line, \<open>bogus\<close>, followed by a continuation
  line before any field. The loop does not go on to the end: it raises at the
  continuation line, and the message is not the bad line.
\<close>

theorem parse_deb822_bad_lines_counterexample:
  "filter (bad_line dak_regexes) (indexed_lines (''bogus'' @ [nl] @ '' cont'' @ [nl])) = [''bogus''] \<and>
   parse_deb822 dak_regexes ''raw'' (''bogus'' @ [nl] @ '' cont'' @ [nl]) 0
     = Inl (ParseChangesError
              ([apostrophe] @ '' cont'' @ [apostrophe, nl] @
               '' [Multi-line field continuing on from nothing?]'')) \<and>
   parse_deb822 dak_regexes ''raw'' (''bogus'' @ [nl] @ '' cont'' @ [nl]) 0
     \<noteq> Inl (ParseChangesError ''bogus'')"
  by code_simp

section \<open>Properties of parse_changes\<close>

lemma check_keywords_first_missing:
  "list_all (\<lambda>x. map_of chg (lower x) \<noteq> None) pre \<Longrightarrow> map_of chg (lower k) = None \<Longrightarrow>
   check_keywords chg [] (pre @ k # rest)
     = Inl (ParseChangesError
              (''Missing mandatory field(s) in changes file (policy 5.5): '' @ repr_list [k]))"
  by (induction pre) auto

text \<open>
  C2, at a record where it fails. The record holds \<open>source\<close> alone, so eight mandatory
  fields are missing, from \<open>Format\<close> to \<open>Files\<close>. \<open>parse_changes\<close> raises at the first of
  them: the message names \<open>Format\<close> and no other field.
\<close>

theorem parse_changes_names_first_missing_only:
  "parse_deb822 dak_regexes ''raw'' (''Source: hello'' @ [nl]) 0
     = Inr [(''source'', ''hello''), (''filecontents'', ''raw'')] \<and>
   parse_changes dak_regexes ''raw'' (''Source: hello'' @ [nl]) 0 False
     = Inl (ParseChangesError
              (''Missing mandatory field(s) in changes file (policy 5.5): [''
                 @ [apostrophe] @ ''Format'' @ [apostrophe] @ '']''))"
  by code_simp

section \<open>Properties of build_file_list\<close>

lemma file_line_Next:
  "i \<noteq> [] \<Longrightarrow> length (split_ws i) = (if includes_section then 5 else 3) \<Longrightarrow>
   \<exists>files'. file_line includes_section hashname i files = Next files'"
  by (simp add: file_line_def Let_def split: prod.splits)

lemma file_lines_first_bad:
  assumes "list_all (\<lambda>i. i \<noteq> [] \<and> length (split_ws i) = (if includes_section then 5 else 3)) pre"
    and "bad \<noteq> []"
    and "length (split_ws bad) \<noteq> (if includes_section then 5 else 3)"
  shows "file_lines includes_section hashname (pre @ bad # post) files
           = Inl (ParseChangesError bad)"
  using assms(1)
proof (induction pre arbitrary: files)
  case Nil
  from assms(2,3) show ?case
    by (simp add: file_line_def Let_def)
next
  case (Cons i pre)
  then have "\<exists>files'. file_line includes_section hashname i files = Next files'"
    by (intro file_line_Next) simp_all
  then obtain files' where "file_line includes_section hashname i files = Next files'" ..
  with Cons show ?case by simp
qed

lemma file_lines_end_of_list:
  "file_lines includes_section hashname (pre @ [] # post) files
     = file_lines includes_section hashname pre files"
  by (induction pre arbitrary: files) (auto simp: file_line_def split: outcome.splits)

text \<open>
  C8, as the code has it. Let the field be present and the format check pass, and let
  \<open>l\<close> be the first line of the field that is empty or has another number of tokens than
  expected (5 with section and priority, 3 without). If \<open>l\<close> is empty, the list ends
  there: the call returns what the lines before \<open>l\<close> give, and the lines after \<open>l\<close> are
  not examined. If \<open>l\<close> is not empty, the call raises \<open>ParseChangesError\<close> with the text
  of \<open>l\<close>, whatever the lines after it are.
\<close>

theorem build_file_list_first_odd_line:
  assumes "map_of chg fld = Some v"
    and "is_a_dsc \<or> (\<exists>fmt. map_of chg ''format'' = Some fmt \<and> validate_format fmt fld = None)"
    and "split_on nl v = pre @ l # post"
    and "list_all (\<lambda>i. i \<noteq> [] \<and>
                       length (split_ws i) = (if \<not> is_a_dsc \<and> fld = ''files'' then 5 else 3)) pre"
    and "l = [] \<or> length (split_ws l) \<noteq> (if \<not> is_a_dsc \<and> fld = ''files'' then 5 else 3)"
  shows "build_file_list validate_format chg is_a_dsc fld hashname
           = (if l = [] then file_lines (\<not> is_a_dsc \<and> fld = ''files'') hashname pre []
              else Inl (ParseChangesError l))"
proof (cases "l = []")
  case True
  with assms(1-3) show ?thesis
    by (auto simp: build_file_list_def file_lines_end_of_list)
next
  case False
  with assms(5)
  have "length (split_ws l) \<noteq> (if \<not> is_a_dsc \<and> fld = ''files'' then 5 else 3)"
    by simp
  with assms(4) False
  have "file_lines (\<not> is_a_dsc \<and> fld = ''files'') hashname (pre @ l # post) []
          = Inl (ParseChangesError l)"
    by (rule file_lines_first_bad)
  with assms(1-3) False show ?thesis
    by (auto simp: build_file_list_def)
qed

theorem build_file_list_first_odd_line_witness:
  "split_on nl (''abc 1 f.dsc'' @ [nl] @ ''bad line'' @ [nl] @ ''worse'')
     = [''abc 1 f.dsc''] @ ''bad line'' # [''worse''] \<and>
   split_ws ''abc 1 f.dsc'' = [''abc'', ''1'', ''f.dsc''] \<and>
   split_ws ''bad line'' = [''bad'', ''line''] \<and>
   build_file_list any_format
       [(''files'', ''abc 1 f.dsc'' @ [nl] @ ''bad line'' @ [nl] @ ''worse'')]
       True ''files'' ''md5sum''
     = Inl (ParseChangesError ''bad line'') \<and>
   split_on nl (''abc 1 f.dsc'' @ [nl]) = [''abc 1 f.dsc''] @ [] # [] \<and>
   build_file_list any_format [(''files'', ''abc 1 f.dsc'' @ [nl])] True ''files'' ''md5sum''
     = Inr [(''f.dsc'',
             [(''size'', ''1''), (''section'', ''-''), (''priority'', ''-''),
              (''component'', ''main''), (''md5sum'', ''abc'')])]"
proof -
  let ?v = "''abc 1 f.dsc'' @ [nl] @ ''bad line'' @ [nl] @ ''worse''"
  let ?w = "''abc 1 f.dsc'' @ [nl]"
  have h1: "map_of [(''files'', ?v)] ''files'' = Some ?v"
    by simp
  have h2: "True \<or> (\<exists>fmt. map_of [(''files'', ?v)] ''format'' = Some fmt \<and>
                           any_format fmt ''files'' = None)"
    by simp
  have h3: "split_on nl ?v = [''abc 1 f.dsc''] @ ''bad line'' # [''worse'']"
    by code_simp
  have t1: "split_ws ''abc 1 f.dsc'' = [''abc'', ''1'', ''f.dsc'']"
    by code_simp
  have t2: "split_ws ''bad line'' = [''bad'', ''line'']"
    by code_simp
  have h4: "list_all (\<lambda>i. i \<noteq> [] \<and>
                       length (split_ws i) = (if \<not> True \<and> ''files'' = ''files'' then 5 else 3))
              [''abc 1 f.dsc'']"
    by (simp add: t1)
  have h5: "''bad line'' = [] \<or>
            length (split_ws ''bad line'') \<noteq> (if \<not> True \<and> ''files'' = ''files'' then 5 else 3)"
    by (simp add: t2)
  have g1: "map_of [(''files'', ?w)] ''files'' = Some ?w"
    by simp
  have g2: "True \<or> (\<exists>fmt. map_of [(''files'', ?w)] ''format'' = Some fmt \<and>
                           any_format fmt ''files'' = None)"
    by simp
  have g3: "split_on nl ?w = [''abc 1 f.dsc''] @ [] # []"
    by code_simp
  have g5: "([]::string) = [] \<or>
            length (split_ws []) \<noteq> (if \<not> True \<and> ''files'' = ''files'' then 5 else 3)"
    by simp
  have r: "file_lines (\<not> True \<and> ''files'' = ''files'') ''md5sum'' [''abc 1 f.dsc''] []
             = Inr [(''f.dsc'',
                     [(''size'', ''1''), (''section'', ''-''), (''priority'', ''-''),
                      (''component'', ''main''), (''md5sum'', ''abc'')])]"
    by code_simp
  from build_file_list_first_odd_line
         [where validate_format = any_format and is_a_dsc = True and hashname = "''md5sum''",
          OF h1 h2 h3 h4 h5]
       build_file_list_first_odd_line
         [where validate_format = any_format and is_a_dsc = True and hashname = "''md5sum''",
          OF g1 g2 g3 h4 g5]
       h3 g3 t1 t2 r
  show ?thesis
    by simp
qed

text \<open>
  C8 as stated fails: the loop ends at the first empty line, so the line \<open>bad line\<close>
  after it, with two tokens where three are expected, is never read and the call
  returns the entry of the first line.
\<close>

theorem build_file_list_counterexample:
  "split_on nl (''abc 1 f.dsc'' @ [nl, nl] @ ''bad line'') = [''abc 1 f.dsc'', [], ''bad line''] \<and>
   split_ws ''bad line'' = [''bad'', ''line''] \<and>
   build_file_list any_format [(''files'', ''abc 1 f.dsc'' @ [nl, nl] @ ''bad line'')]
       True ''files'' ''md5sum''
     = Inr [(''f.dsc'',
             [(''size'', ''1''), (''section'', ''-''), (''priority'', ''-''),
              (''component'', ''main''), (''md5sum'', ''abc'')])]"
  by code_simp

section \<open>Properties of check_dsc_files\<close>

text \<open>
  C6, as the code has it. File names that fail \<open>re_issource\<close> are rejected with one
  message each, and the loop goes on with the file names after them, the counters
  unchanged.
\<close>

theorem unrecognised_files_continue:
  "list_all (\<lambda>f. re_issource rx f = None) fs \<Longrightarrow>
   classify_files rx dsc_filename (fs @ rest) (rejmsg, has)
     = classify_files rx dsc_filename rest
         (rejmsg @ map (not_recognised dsc_filename) fs, has)"
  by (induction fs arbitrary: rejmsg) (simp_all add: classify_file_def)

theorem unrecognised_files_continue_witness:
  "list_all (\<lambda>f. re_issource dak_regexes f = None) [''README'', ''NEWS''] \<and>
   fst (classify_files dak_regexes ''x.dsc'' ([''README'', ''NEWS''] @ [''a_1.diff.gz''])
          ([], []))
     = [''x.dsc: README in Files field not recognised as source.'',
        ''x.dsc: NEWS in Files field not recognised as source.''] \<and>
   snd (classify_files dak_regexes ''x.dsc'' ([''README'', ''NEWS''] @ [''a_1.diff.gz''])
          ([], []))
     = [(''debian_diff'', 1)]"
proof -
  have h: "list_all (\<lambda>f. re_issource dak_regexes f = None) [''README'', ''NEWS'']"
    by code_simp
  have r: "classify_file dak_regexes ''x.dsc'' ''a_1.diff.gz''
             ([] @ map (not_recognised ''x.dsc'') [''README'', ''NEWS''], [])
           = (([] @ map (not_recognised ''x.dsc'') [''README'', ''NEWS''],
               [(''debian_diff'', 1)]), True)"
    by code_simp
  from unrecognised_files_continue [OF h, of "''x.dsc''" "[''a_1.diff.gz'']" "[]" "[]"] h r
  show ?thesis
    by (simp add: not_recognised_def)
qed

lemma unexpected_file_breaks:
  "re_issource rx f = Some ext \<Longrightarrow> List.find (\<lambda>rule. fst rule ext) ftype_lookup = None \<Longrightarrow>
   classify_files rx dsc_filename (f # rest) (rejmsg, has)
     = (rejmsg @ [unexpected_file dsc_filename f], has)"
  by (simp add: classify_file_def)

text \<open>
  C6 as stated fails: \<open>README\<close> fails \<open>re_issource\<close>, and the two file names after it are
  still classified, which yields a further message.
\<close>

theorem check_dsc_files_counterexample:
  "re_issource dak_regexes ''README'' = None \<and>
   check_dsc_files dak_regexes no_format ''x.dsc'' [(''format'', ''1.0'')]
       [''README'', ''a_1.orig.tar.gz'', ''b_1.orig.tar.gz'']
     = Inr [''x.dsc: README in Files field not recognised as source.'',
            ''x.dsc: lists multiple orig_tar'']"
  by code_simp

section \<open>Properties of check_reverse_depends\<close>

lemma unsat_count_le: "unsat_count removals dep \<le> length dep"
  by (induction removals dep rule: unsat_count.induct) auto

lemma unsat_count_all:
  "unsat_count removals dep = length dep \<longleftrightarrow> list_all (\<lambda>alt. fst alt \<in> set removals) dep"
proof (induction removals dep rule: unsat_count.induct)
  case (1 removals)
  show ?case by simp
next
  case (2 removals dep_package uu dep)
  from unsat_count_le [of removals dep] 2 show ?case
    by auto
qed

text \<open>
  What the binary pass tests. A clause of an examined package is recorded as broken,
  with \<open>dep_problem\<close> set, exactly when the package name of every alternative is in
  \<open>removals\<close>, the collection the caller passes; the version and the operator of an
  alternative are not read. A package that is not in \<open>removals\<close> is recorded once, however
  many of its clauses are broken; \<open>removal_set\<close> takes no part in the test.
\<close>

lemma check_dep_removals:
  assumes "map_of (p2c a) package = Some component"
    and "map_of (sources a) package = Some source"
  shows "check_dep removals architecture package dep a =
           Inr (if list_all (\<lambda>alt. fst alt \<in> set removals) dep
                then a\<lparr>all_broken :=
                         List.insert (source_key source component, package, architecture)
                           (all_broken a),
                       dep_problem := True\<rparr>
                else a)"
  using assms by (simp add: check_dep_def unsat_count_all)

lemma check_deps_recorded:
  assumes "map_of (p2c a) package = Some component"
    and "map_of (sources a) package = Some source"
    and "(source_key source component, package, architecture) \<in> set (all_broken a)"
    and "dep_problem a"
  shows "check_deps removals architecture package parsed_dep a = Inr a"
proof (induction parsed_dep)
  case Nil
  show ?case by simp
next
  case (Cons dep parsed_dep)
  have "a\<lparr>all_broken := all_broken a, dep_problem := True\<rparr> = a"
    using assms(4) by (cases a) simp
  with assms(3) have "check_dep removals architecture package dep a = Inr a"
    by (simp add: check_dep_removals [OF assms(1,2)] List.insert_def)
  with Cons show ?case by simp
qed

lemma check_deps_removals:
  assumes "map_of (p2c a) package = Some component"
    and "map_of (sources a) package = Some source"
  shows "check_deps removals architecture package parsed_dep a =
           Inr (if list_ex (list_all (\<lambda>alt. fst alt \<in> set removals)) parsed_dep
                then a\<lparr>all_broken :=
                         List.insert (source_key source component, package, architecture)
                           (all_broken a),
                       dep_problem := True\<rparr>
                else a)"
proof (induction parsed_dep)
  case Nil
  show ?case by simp
next
  case (Cons dep parsed_dep)
  let ?b = "a\<lparr>all_broken :=
                 List.insert (source_key source component, package, architecture) (all_broken a),
               dep_problem := True\<rparr>"
  show ?case
  proof (cases "list_all (\<lambda>alt. fst alt \<in> set removals) dep")
    case True
    have "check_deps removals architecture package parsed_dep ?b = Inr ?b"
      by (rule check_deps_recorded [where component = component and source = source])
         (use assms in simp_all)
    with True show ?thesis
      by (simp add: check_dep_removals [OF assms])
  next
    case False
    with Cons show ?thesis
      by (simp add: check_dep_removals [OF assms])
  qed
qed

lemma check_package_removals:
  assumes "package \<notin> set removals"
    and "map_of (deps a) package = Some text"
    and "map_of (p2c a) package = Some component"
    and "map_of (sources a) package = Some source"
  shows "check_package apt_pkg removals architecture package a =
           Inr (if list_ex (list_all (\<lambda>alt. fst alt \<in> set removals))
                     (case parse_depends apt_pkg text of None \<Rightarrow> [] | Some parsed_dep \<Rightarrow> parsed_dep)
                then a\<lparr>all_broken :=
                         List.insert (source_key source component, package, architecture)
                           (all_broken a),
                       dep_problem := True\<rparr>
                else a)"
  using assms(1,2) by (simp add: check_package_def check_deps_removals [OF assms(3,4)])

text \<open>
  C4, at an input where it fails. On the store of the virtual closure, with \<open>b\<close> to
  remove, the clause \<open>v\<close> of the surviving package \<open>a\<close> has its only alternative in
  \<open>removal_set\<close>, the removal set as the analysis has expanded it; yet the package is
  not recorded and \<open>dep_problem\<close> stays \<open>False\<close>, because the clause is tested against
  \<open>removals\<close>. On the store of the alternatives the two examples of the claim hold:
  the clause \<open>b | d\<close> of \<open>a\<close> is not recorded, the clause \<open>b\<close> of \<open>c\<close> is.
\<close>

theorem clause_in_removal_set_not_reported:
  "check_architecture apt closure_store [''b''] ''amd64'' (analysis_init [''b''])
     = Inr closure_state \<and>
   removal_set closure_state = [''v'', ''b''] \<and>
   map_of (deps closure_state) ''a'' = Some ''v'' \<and>
   parse_depends apt ''v'' = Some [[(''v'', [], [])]] \<and>
   fst (''v'', [], []) \<in> set (removal_set closure_state) \<and>
   check_package apt [''b''] ''amd64'' ''a'' closure_state = Inr closure_state \<and>
   all_broken closure_state = [] \<and>
   dep_problem closure_state = False \<and>
   analyse dak_regexes apt alternatives_store [''b''] None True
     = Inr \<lparr>dep_problem = True,
            p2c = [(''a'', ''main''), (''c'', ''contrib''), (''b'', ''main''), (''d'', ''main'')],
            removal_set = [''b''], all_broken = [(''c-src/contrib'', ''c'', ''amd64'')],
            all_broken_bd = [], sources = [], deps = [], virtual_packages = []\<rparr>"
  by code_simp

text \<open>
  C1, at an input where it fails. The package \<open>a\<close> depends on \<open>v\<close>, which \<open>b\<close> alone
  provides, and \<open>b\<close> is to be removed. \<open>v\<close> is added to \<open>removal_set\<close>, but the clauses
  are tested against \<open>removals\<close>: nothing is recorded as broken and the call returns
  \<open>False\<close>.
\<close>

theorem virtual_closure_not_consulted:
  "analyse dak_regexes apt closure_store [''b''] None True
     = Inr \<lparr>dep_problem = False, p2c = [(''a'', ''main''), (''b'', ''main'')],
            removal_set = [''v'', ''b''], all_broken = [], all_broken_bd = [],
            sources = [], deps = [], virtual_packages = []\<rparr> \<and>
   check_reverse_depends dak_regexes apt closure_store [''b''] None True = Inr False"
  by code_simp

end
